theory Spec2Isabelle
  imports Complex_Main
begin

section \<open>Text: Python string operations on code points below 256\<close>

text \<open>
  A Python \<open>str\<close> is a sequence of code points. It is modelled as a \<open>string\<close>, one
  \<open>char\<close> per code point, so the model covers code points below 256 (Latin-1), which
  includes the degree sign U+00B0 of the offset descriptor. The classification functions
  below follow the Unicode data CPython uses, restricted to that range.
\<close>

definition code :: "char \<Rightarrow> int" where
  "code c = of_char c"

text \<open>
  The code point is computed once for each character and classified as a number.
  \<open>space_code\<close> is \<open>str.isspace\<close> per character and the class \<open>\s\<close> of \<open>re\<close>;
  \<open>decimal_code\<close> is the class \<open>\d\<close>; \<open>digit_code\<close> is \<open>str.isdigit\<close> per
  character (the decimal digits and the superscripts 1, 2, 3); \<open>word_code\<close> is the class
  \<open>\w\<close> that \<open>\b\<close> uses (alphanumeric or underscore).
\<close>

definition space_code :: "int \<Rightarrow> bool" where
  "space_code n = ((9 \<le> n \<and> n \<le> 13) \<or> (28 \<le> n \<and> n \<le> 32) \<or> n = 133 \<or> n = 160)"

definition decimal_code :: "int \<Rightarrow> bool" where
  "decimal_code n = (48 \<le> n \<and> n \<le> 57)"

definition digit_code :: "int \<Rightarrow> bool" where
  "digit_code n = (decimal_code n \<or> n = 178 \<or> n = 179 \<or> n = 185)"

definition upper_code :: "int \<Rightarrow> bool" where
  "upper_code n = ((65 \<le> n \<and> n \<le> 90) \<or> (192 \<le> n \<and> n \<le> 214) \<or> (216 \<le> n \<and> n \<le> 222))"

definition lower_code :: "int \<Rightarrow> bool" where
  "lower_code n = ((97 \<le> n \<and> n \<le> 122) \<or> n = 170 \<or> n = 181 \<or> n = 186
                   \<or> (223 \<le> n \<and> n \<le> 246) \<or> (248 \<le> n \<and> n \<le> 255))"

definition word_code :: "int \<Rightarrow> bool" where
  "word_code n = (upper_code n \<or> lower_code n \<or> digit_code n
                  \<or> n = 188 \<or> n = 189 \<or> n = 190 \<or> n = 95)"

definition isspace :: "char \<Rightarrow> bool" where
  "isspace c = space_code (code c)"

definition isdecimal :: "char \<Rightarrow> bool" where
  "isdecimal c = decimal_code (code c)"

definition isdigit_char :: "char \<Rightarrow> bool" where
  "isdigit_char c = digit_code (code c)"

definition isupper_char :: "char \<Rightarrow> bool" where
  "isupper_char c = upper_code (code c)"

definition islower_char :: "char \<Rightarrow> bool" where
  "islower_char c = lower_code (code c)"

definition isword :: "char \<Rightarrow> bool" where
  "isword c = word_code (code c)"

text \<open>\<open>str.lower\<close> per character.\<close>

definition lower_char :: "char \<Rightarrow> char" where
  "lower_char c = (let n = code c in if upper_code n then char_of (n + 32) else c)"

text \<open>
  \<open>str.upper\<close> per character. The three lower-case characters whose upper case lies
  outside the range (U+00B5, U+00DF, U+00FF) are left as they are; \<open>upper\<close> is only
  applied to text matched by the direction patterns, which is ASCII letters.
\<close>

definition upper_char :: "char \<Rightarrow> char" where
  "upper_char c =
     (let n = code c
      in if (97 \<le> n \<and> n \<le> 122) \<or> (224 \<le> n \<and> n \<le> 246) \<or> (248 \<le> n \<and> n \<le> 254)
         then char_of (n - 32) else c)"

definition lower :: "string \<Rightarrow> string" where
  "lower s = map lower_char s"

definition upper :: "string \<Rightarrow> string" where
  "upper s = map upper_char s"

definition strip :: "string \<Rightarrow> string" where
  "strip s = rev (dropWhile isspace (rev (dropWhile isspace s)))"

text \<open>\<open>str.isupper\<close>: no lower-case character and at least one upper-case character.\<close>

definition isupper :: "string \<Rightarrow> bool" where
  "isupper s = ((\<forall>c \<in> set s. \<not> islower_char c) \<and> (\<exists>c \<in> set s. isupper_char c))"

definition isdigit :: "string \<Rightarrow> bool" where
  "isdigit s = (s \<noteq> [] \<and> (\<forall>c \<in> set s. isdigit_char c))"

text \<open>\<open>sub in s\<close> for strings.\<close>

fun contains :: "string \<Rightarrow> string \<Rightarrow> bool" where
  "contains sub [] = (sub = [])"
| "contains sub (c # cs) = (take (length sub) (c # cs) = sub \<or> contains sub cs)"

text \<open>\<open>s.endswith(suf)\<close>.\<close>

definition endswith :: "string \<Rightarrow> string \<Rightarrow> bool" where
  "endswith s suf = (length suf \<le> length s \<and> drop (length s - length suf) s = suf)"

text \<open>\<open>sep.join(parts)\<close>.\<close>

fun join :: "string \<Rightarrow> string list \<Rightarrow> string" where
  "join sep [] = []"
| "join sep [p] = p"
| "join sep (p # q # ps) = p @ sep @ join sep (q # ps)"

text \<open>\<open>len(s.split())\<close>: the number of maximal runs of non-space characters.\<close>

fun word_count :: "string \<Rightarrow> nat" where
  "word_count [] = 0"
| "word_count (c # cs) =
     (if isspace c then word_count cs
      else (case cs of [] \<Rightarrow> 1
            | d # ds \<Rightarrow> if isspace d then Suc (word_count cs) else word_count cs))"

section \<open>Regular expressions: the fragment of \<open>re\<close> the program uses\<close>

text \<open>
  The patterns of the source use single characters and character classes, greedy
  repetition of a class, \<open>\b\<close>, \<open>$\<close>, sequencing, alternation and capture groups.
  The matcher is a backtracking matcher as \<open>re\<close>'s is: it lists the possible
  match ends in the order in which backtracking tries them, so the head of the list is
  the match Python reports.
\<close>

datatype atom = Digit | Space | AnyOf string

datatype rx =
    Eps
  | One atom
  | Many atom nat "nat option"
  | WordB
  | Eol
  | Seq rx rx
  | Alt rx rx
  | Grp nat rx

text \<open>
  A matcher state: position, the character before it (if any), the rest of the text,
  and the groups captured so far (start and end positions, most recent first).
\<close>

type_synonym mstate = "nat \<times> char option \<times> string \<times> (nat \<times> nat \<times> nat) list"

fun amatch :: "bool \<Rightarrow> atom \<Rightarrow> char \<Rightarrow> bool" where
  "amatch ic Digit c = isdecimal c"
| "amatch ic Space c = isspace c"
| "amatch ic (AnyOf cs) c =
     (if ic then lower_char c \<in> set (map lower_char cs) else c \<in> set cs)"

text \<open>
  The states after 0, 1, 2, ... repetitions of an atom (at most \<open>k\<close> more when the
  bound is \<open>Some k\<close>), fewest repetitions first.
\<close>

fun many_states :: "bool \<Rightarrow> atom \<Rightarrow> nat option \<Rightarrow> mstate \<Rightarrow> mstate list" where
  "many_states ic a hi (i, prev, [], caps) = [(i, prev, [], caps)]"
| "many_states ic a hi (i, prev, c # cs, caps) =
     (i, prev, c # cs, caps) #
     (if hi = Some 0 \<or> \<not> amatch ic a c then []
      else many_states ic a (map_option (\<lambda>k. k - 1) hi) (Suc i, Some c, cs, caps))"

definition at_boundary :: "char option \<Rightarrow> string \<Rightarrow> bool" where
  "at_boundary prev rest =
     ((case prev of None \<Rightarrow> False | Some c \<Rightarrow> isword c)
      \<noteq> (case rest of [] \<Rightarrow> False | c # _ \<Rightarrow> isword c))"

fun rmatch :: "bool \<Rightarrow> rx \<Rightarrow> mstate \<Rightarrow> mstate list" where
  "rmatch ic Eps st = [st]"
| "rmatch ic (One a) (i, prev, rest, caps) =
     (case rest of [] \<Rightarrow> []
      | c # cs \<Rightarrow> if amatch ic a c then [(Suc i, Some c, cs, caps)] else [])"
| "rmatch ic (Many a lo hi) st = rev (drop lo (many_states ic a hi st))"
| "rmatch ic WordB (i, prev, rest, caps) =
     (if at_boundary prev rest then [(i, prev, rest, caps)] else [])"
| "rmatch ic Eol (i, prev, rest, caps) =
     (if rest = [] \<or> rest = [CHR 0x0A] then [(i, prev, rest, caps)] else [])"
| "rmatch ic (Seq r1 r2) st = concat (map (rmatch ic r2) (rmatch ic r1 st))"
| "rmatch ic (Alt r1 r2) st = rmatch ic r1 st @ rmatch ic r2 st"
| "rmatch ic (Grp n r) (i, prev, rest, caps) =
     map (\<lambda>(j, p, rs, cp). (j, p, rs, (n, i, j) # cp)) (rmatch ic r (i, prev, rest, caps))"

text \<open>
  \<open>re.search\<close>: the leftmost start position at which the pattern matches, with the
  first match found there. The result is the start, the end and the captured groups.
\<close>

fun search_from :: "bool \<Rightarrow> rx \<Rightarrow> nat \<Rightarrow> char option \<Rightarrow> string
                    \<Rightarrow> (nat \<times> nat \<times> (nat \<times> nat \<times> nat) list) option" where
  "search_from ic r i prev rest =
     (case rmatch ic r (i, prev, rest, []) of
        (j, _, _, caps) # _ \<Rightarrow> Some (i, j, caps)
      | [] \<Rightarrow> (case rest of [] \<Rightarrow> None
               | c # cs \<Rightarrow> search_from ic r (Suc i) (Some c) cs))"

definition search :: "bool \<Rightarrow> rx \<Rightarrow> string \<Rightarrow> (nat \<times> nat \<times> (nat \<times> nat \<times> nat) list) option" where
  "search ic r s = search_from ic r 0 None s"

definition found :: "bool \<Rightarrow> rx \<Rightarrow> string \<Rightarrow> bool" where
  "found ic r s = (search ic r s \<noteq> None)"

text \<open>\<open>match.group(n)\<close> of a group that took part in the match.\<close>

definition group :: "string \<Rightarrow> (nat \<times> nat \<times> nat) list \<Rightarrow> nat \<Rightarrow> string" where
  "group s caps n = (case map_of caps n of None \<Rightarrow> [] | Some (i, j) \<Rightarrow> take (j - i) (drop i s))"

subsection \<open>Pattern constructors\<close>

definition ch :: "char \<Rightarrow> rx" where
  "ch c = One (AnyOf [c])"

definition lit :: "string \<Rightarrow> rx" where
  "lit s = foldr (\<lambda>c r. Seq (ch c) r) s Eps"

definition cat :: "rx list \<Rightarrow> rx" where
  "cat rs = foldr Seq rs Eps"

fun alts :: "rx list \<Rightarrow> rx" where
  "alts [] = Eps"
| "alts [r] = r"
| "alts (r # rs) = Alt r (alts rs)"

definition star_rx :: "atom \<Rightarrow> rx" where
  "star_rx a = Many a 0 None"

definition plus_rx :: "atom \<Rightarrow> rx" where
  "plus_rx a = Many a 1 None"

definition opt_rx :: "atom \<Rightarrow> rx" where
  "opt_rx a = Many a 0 (Some 1)"

text \<open>\<open>\bword\b\<close>\<close>

definition bword :: "string \<Rightarrow> rx" where
  "bword w = cat [WordB, lit w, WordB]"

text \<open>The common prefix \<open>\d+\.?\d*\s*mi[les]*\s+\<close> of the directional patterns,
  with the number optionally captured as group 1.\<close>

definition number_rx :: rx where
  "number_rx = cat [plus_rx Digit, opt_rx (AnyOf ''.''), star_rx Digit]"

definition miles_rx :: rx where
  "miles_rx = cat [star_rx Space, lit ''mi'', star_rx (AnyOf ''les''), plus_rx Space]"

definition compass_rx :: rx where
  "compass_rx = Many (AnyOf ''NSEW'') 1 (Some 3)"

definition words_rx :: rx where
  "words_rx = alts (map lit [''north'', ''south'', ''east'', ''west'',
                             ''ne'', ''nw'', ''se'', ''sw''])"

section \<open>Records\<close>

text \<open>
  A cell of a text column as \<open>row.get\<close> sees it: the column is not in the table, the
  cell is empty (NaN after \<open>read_csv\<close>), or it holds a string.
\<close>

datatype cell = NoColumn | NaN | Str string

text \<open>\<open>pd.notna(row.get(k)) and str(row[k]).strip()\<close>, as a truth value.\<close>

definition has :: "cell \<Rightarrow> bool" where
  "has v = (case v of Str s \<Rightarrow> strip s \<noteq> [] | _ \<Rightarrow> False)"

text \<open>\<open>str(row.get(k, ''))\<close>: the default for a missing column, \<open>nan\<close> for NaN.\<close>

definition str_get :: "cell \<Rightarrow> string" where
  "str_get v = (case v of NoColumn \<Rightarrow> [] | NaN \<Rightarrow> ''nan'' | Str s \<Rightarrow> s)"

text \<open>
  One row of the table after loading: the input columns, the coordinates after
  \<open>to_numeric\<close> (\<open>None\<close> is NaN or \<open>pd.NA\<close>), and the derived columns.
\<close>

record row =
  prec_location :: cell
  city :: cell
  county :: cell
  province_state :: cell
  country :: cell
  latitude :: "real option"
  longitude :: "real option"
  geocoded_address :: string
  google_formatted_address :: string
  location_type :: string
  flag_status :: string
  flag_reason :: string
  latitude_shifted :: "real option"
  longitude_shifted :: "real option"
  offset_applied :: string

section \<open>construct\_address\<close>

definition construct_address :: "row \<Rightarrow> string option" where
  "construct_address r =
     (let parts = [];
          parts = (if has (prec_location r) then parts @ [strip (str_get (prec_location r))]
                   else parts);
          parts = (if has (city r) then parts @ [strip (str_get (city r))] else parts);
          parts = (if has (county r)
                   then (let c = strip (str_get (county r));
                             c = (if \<not> endswith (lower c) ''county'' then c @ '' County'' else c)
                         in parts @ [c])
                   else parts);
          parts = (if has (province_state r) then parts @ [strip (str_get (province_state r))]
                   else parts);
          parts = (if has (country r) then parts @ [strip (str_get (country r))]
                   else parts @ [''USA''])
      in if parts \<noteq> [] then Some (join '', '' parts) else None)"

section \<open>Directional offsets\<close>

definition base_patterns :: "rx list" where
  "base_patterns =
     [cat [number_rx, miles_rx, compass_rx, plus_rx Space, lit ''of'', plus_rx Space],
      cat [number_rx, miles_rx, Grp 1 words_rx, plus_rx Space, lit ''of'', plus_rx Space]]"

text \<open>The \<open>for pattern in ...\<close> loop of extract\_base\_location: the first pattern
  that matches decides.\<close>

fun first_base :: "rx list \<Rightarrow> string \<Rightarrow> string option" where
  "first_base [] address = None"
| "first_base (p # ps) address =
     (case search True p address of
        Some (i, j, caps) \<Rightarrow> Some (strip (drop j address))
      | None \<Rightarrow> first_base ps address)"

definition extract_base_location :: "string \<Rightarrow> string" where
  "extract_base_location address =
     (if address = [] then address
      else (case first_base base_patterns address of Some b \<Rightarrow> b | None \<Rightarrow> address))"

text \<open>
  A Python number as the parser returns it: an \<open>int\<close> of the bearing table, or a
  \<open>float\<close>, given by the decimal digits before and after the point of the literal it
  was read from (the float is the double nearest to that decimal).
\<close>

datatype pynum = PyInt nat | PyFloat string string

definition digit_val :: "char \<Rightarrow> nat" where
  "digit_val c = nat (code c - 48)"

definition digits_val :: "string \<Rightarrow> nat" where
  "digits_val ds = foldl (\<lambda>n c. 10 * n + digit_val c) 0 ds"

definition num_val :: "pynum \<Rightarrow> real" where
  "num_val x = (case x of PyInt n \<Rightarrow> real n
                | PyFloat ip fp \<Rightarrow> real (digits_val (ip @ fp)) / 10 ^ length fp)"

text \<open>Truthiness of a number: zero is false.\<close>

definition truthy :: "pynum \<Rightarrow> bool" where
  "truthy x = (case x of PyInt n \<Rightarrow> n \<noteq> 0 | PyFloat ip fp \<Rightarrow> digits_val (ip @ fp) \<noteq> 0)"

text \<open>\<open>float(text)\<close> for text matched by \<open>\d+\.?\d*\<close>.\<close>

definition float_of :: "string \<Rightarrow> pynum" where
  "float_of t = PyFloat (takeWhile isdecimal t) (drop 1 (dropWhile isdecimal t))"

definition direction_map :: "(string \<times> string) list" where
  "direction_map =
     [(''NORTH'', ''N''), (''SOUTH'', ''S''), (''EAST'', ''E''), (''WEST'', ''W''),
      (''NORTHEAST'', ''NE''), (''NORTHWEST'', ''NW''),
      (''SOUTHEAST'', ''SE''), (''SOUTHWEST'', ''SW'')]"

definition direction_bearings :: "(string \<times> pynum) list" where
  "direction_bearings =
     [(''N'', PyInt 0), (''NNE'', PyFloat ''22'' ''5''), (''NE'', PyInt 45),
      (''ENE'', PyFloat ''67'' ''5''), (''E'', PyInt 90), (''ESE'', PyFloat ''112'' ''5''),
      (''SE'', PyInt 135), (''SSE'', PyFloat ''157'' ''5''), (''S'', PyInt 180),
      (''SSW'', PyFloat ''202'' ''5''), (''SW'', PyInt 225), (''WSW'', PyFloat ''247'' ''5''),
      (''W'', PyInt 270), (''WNW'', PyFloat ''292'' ''5''), (''NW'', PyInt 315),
      (''NNW'', PyFloat ''337'' ''5'')]"

definition offset_patterns :: "rx list" where
  "offset_patterns =
     [cat [Grp 1 number_rx, miles_rx, Grp 2 compass_rx, plus_rx Space, lit ''of''],
      cat [Grp 1 number_rx, miles_rx, Grp 2 words_rx, plus_rx Space, lit ''of'']]"

text \<open>The \<open>for pattern in patterns\<close> loop of parse\_directional\_offset: a pattern
  whose match names no known bearing is passed over.\<close>

fun first_offset :: "rx list \<Rightarrow> string \<Rightarrow> (pynum \<times> pynum) option" where
  "first_offset [] t = None"
| "first_offset (p # ps) t =
     (case search True p t of
        None \<Rightarrow> first_offset ps t
      | Some (i, j, caps) \<Rightarrow>
          (let distance = float_of (group t caps 1);
               direction = upper (group t caps 2);
               direction = (case map_of direction_map direction of
                              Some d \<Rightarrow> d | None \<Rightarrow> direction)
           in case map_of direction_bearings direction of
                Some bearing \<Rightarrow> Some (distance, bearing)
              | None \<Rightarrow> first_offset ps t))"

definition parse_directional_offset :: "string \<Rightarrow> (pynum \<times> pynum) option" where
  "parse_directional_offset t = (if t = [] then None else first_offset offset_patterns t)"

section \<open>flag\_potential\_issues\<close>

definition directional_patterns :: "rx list" where
  "directional_patterns =
     [cat [number_rx, miles_rx, compass_rx, plus_rx Space, lit ''of''],
      cat [number_rx, miles_rx, compass_rx, Eol],
      cat [number_rx, miles_rx, Grp 1 words_rx, plus_rx Space, lit ''of'']]"

definition vague_refs :: "rx list" where
  "vague_refs =
     [bword ''behind'', bword ''at'',
      cat [WordB, lit ''vic'', opt_rx (AnyOf ''.''), WordB], bword ''near'']"

definition water_features :: "rx list" where
  "water_features =
     map bword [''river'', ''lake'', ''creek'', ''bay'', ''beach'', ''shore'', ''falls'', ''pond'']"

definition park_keywords :: "rx list" where
  "park_keywords =
     map bword [''park'', ''forest'', ''wilderness'', ''preserve'', ''refuge'', ''national'',
                ''state park'', ''grove'', ''seashore'', ''monument'', ''station'', ''dunes'']"

text \<open>\<open>any(re.search(pattern, text) for pattern in patterns)\<close>, case-sensitive.\<close>

definition any_found :: "rx list \<Rightarrow> string \<Rightarrow> bool" where
  "any_found ps t = list_ex (\<lambda>p. found False p t) ps"

text \<open>
  The list \<open>flags\<close> as the rules append to it, in the order of the source. The two
  blocks of the source that recognise highway references and detailed locations only
  \<open>pass\<close> and are left out.
\<close>

definition collect_flags :: "row \<Rightarrow> string list" where
  "collect_flags r =
     (let flags = [];
          has_city = has (city r);
          has_prec_location = has (prec_location r);
          has_county = has (county r);
          has_state = has (province_state r);
          prec_loc_text = strip (str_get (prec_location r));
          city_text = strip (str_get (city r));
          location_text = lower (prec_loc_text @ '' '' @ city_text);
          flags = (if \<not> has_city \<and> \<not> has_prec_location
                   then flags @ [''County/state only - very vague''] else flags);
          flags = (if \<not> has_state
                   then flags @ [''Missing state - may be ambiguous''] else flags);
          flags = (if has_prec_location \<and> any_found directional_patterns location_text
                   then flags @ [''Directional offset - API may ignore distance/direction'']
                   else flags);
          flags = (if has_prec_location \<and> any_found vague_refs location_text
                   then flags @ [''Vague reference point (behind/at/vic/near)''] else flags);
          flags = (if (has_prec_location \<or> has_city) \<and> any_found water_features location_text
                   then flags @ [''Water feature - may use centerline/centroid''] else flags);
          flags = (if any_found park_keywords location_text
                   then (if word_count location_text \<le> 3
                         then flags @ [''Park/natural area (just name - may use geometric center)'']
                         else flags @ [''Park/natural area with detail (may still use center)''])
                   else flags);
          flags = (if has_county
                      \<and> (contains ''/'' (str_get (county r))
                          \<or> contains '' or '' (lower (str_get (county r))))
                   then flags @ [''Multiple counties listed''] else flags);
          flags = (if has_prec_location
                   then (if length prec_loc_text \<le> 6 \<and> contains ''.'' prec_loc_text
                         then flags @ [''Abbreviated location name'']
                         else if length prec_loc_text \<le> 4 \<and> isupper prec_loc_text
                                 \<and> \<not> isdigit prec_loc_text
                         then flags @ [''Possible acronym/abbreviation'']
                         else flags)
                   else flags);
          flags = (if has_prec_location
                      \<and> (contains ''('' prec_loc_text \<or> contains ''['' prec_loc_text
                          \<or> contains '')'' prec_loc_text \<or> contains '']'' prec_loc_text)
                   then flags @ [''Contains parenthetical info - may confuse geocoder'']
                   else flags)
      in flags)"

definition critical_keywords :: "string list" where
  "critical_keywords = [''county/state only'', ''missing state'']"

definition informational_keywords :: "string list" where
  "informational_keywords = [''park'', ''water feature'', ''parenthetical'']"

text \<open>\<open>any(keyword in flag.lower() for keyword in keywords)\<close>\<close>

definition mentions :: "string list \<Rightarrow> string \<Rightarrow> bool" where
  "mentions keywords flag = list_ex (\<lambda>keyword. contains keyword (lower flag)) keywords"

definition flag_potential_issues :: "row \<Rightarrow> string \<times> string" where
  "flag_potential_issues r =
     (let flags = collect_flags r in
      if flags = [] then (''OK'', [])
      else if list_ex (mentions critical_keywords) flags
      then (''WARNING'', join ''; '' flags)
      else if length flags \<ge> 2
      then (if list_all (mentions informational_keywords) flags
            then (''OK'', join ''; '' flags)
            else (''REVIEW'', join ''; '' flags))
      else if length flags = 1
      then (let flag = lower (flags ! 0) in
            if contains ''directional offset'' flag \<or> contains ''vague reference'' flag
               \<or> contains ''abbreviated'' flag
            then (''REVIEW'', join ''; '' flags)
            else (''OK'', join ''; '' flags))
      else (''OK'', join ''; '' flags))"

section \<open>Which rows are geocoded\<close>

text \<open>After \<open>to_numeric\<close> a coordinate is a float or missing, never a string.\<close>

definition should_geocode :: "row \<Rightarrow> bool" where
  "should_geocode r = (latitude r = None \<or> longitude r = None)"

definition is_too_vague :: "row \<Rightarrow> bool" where
  "is_too_vague r = (\<not> (has (city r) \<or> has (prec_location r)))"

section \<open>The geocoding call\<close>

text \<open>
  The outcomes of the external call as geocode\_address\_google tells them apart: status
  \<open>OK\<close> with a first result, the three named statuses, any other status, a request
  exception, and a response that cannot be read.
\<close>

datatype geocode_result =
    Success real real string string
  | ZeroResults
  | Denied string
  | OverLimit
  | OtherStatus string
  | TransportFailure
  | ParseFailure

text \<open>
  The source returns four values, all \<open>None\<close> on every failure path; the four
  \<open>None\<close>s are the one value \<open>None\<close> here.
\<close>

definition geocode_address_google ::
  "(string \<Rightarrow> geocode_result) \<Rightarrow> string \<Rightarrow> (real \<times> real \<times> string \<times> string) option" where
  "geocode_address_google resolve address =
     (case resolve address of
        Success lat lon loc_type formatted_address \<Rightarrow>
          Some (lat, lon, loc_type, formatted_address)
      | ZeroResults \<Rightarrow> None
      | Denied msg \<Rightarrow> None
      | OverLimit \<Rightarrow> None
      | OtherStatus st \<Rightarrow> None
      | TransportFailure \<Rightarrow> None
      | ParseFailure \<Rightarrow> None)"

section \<open>apply\_offset\<close>

text \<open>
  Coordinates are real numbers here: the formula is the source's, computed exactly, and
  the rounding of the floating-point operations is outside the model.
\<close>

definition radians :: "real \<Rightarrow> real" where
  "radians x = x * (pi / 180)"

definition degrees :: "real \<Rightarrow> real" where
  "degrees x = x * (180 / pi)"

text \<open>\<open>math.atan2(y, x)\<close>: the angle of the point \<open>(x, y)\<close>, in \<open>(-pi, pi]\<close>.\<close>

definition atan2 :: "real \<Rightarrow> real \<Rightarrow> real" where
  "atan2 y x =
     (if x > 0 then arctan (y / x)
      else if x < 0 then (if y \<ge> 0 then arctan (y / x) + pi else arctan (y / x) - pi)
      else if y > 0 then pi / 2
      else if y < 0 then - pi / 2
      else 0)"

definition apply_offset :: "real \<Rightarrow> real \<Rightarrow> real \<Rightarrow> real \<Rightarrow> real \<times> real" where
  "apply_offset lat lon distance_miles bearing_degrees =
     (let R = 3959;
          lat_rad = radians lat;
          lon_rad = radians lon;
          bearing_rad = radians bearing_degrees;
          distance_rad = distance_miles / R;
          new_lat_rad = arcsin (sin lat_rad * cos distance_rad
                                + cos lat_rad * sin distance_rad * cos bearing_rad);
          new_lon_rad = lon_rad + atan2 (sin bearing_rad * sin distance_rad * cos lat_rad)
                                        (cos distance_rad - sin lat_rad * sin new_lat_rad)
      in (degrees new_lat_rad, degrees new_lon_rad))"

section \<open>Formatting numbers\<close>

function show_nat :: "nat \<Rightarrow> string" where
  "show_nat n = (if n < 10 then [char_of (48 + n)]
                 else show_nat (n div 10) @ [char_of (48 + n mod 10)])"
  by pat_completeness auto
termination
  by (relation "measure id") auto

text \<open>
  \<open>str\<close> of a number, as an f-string inserts it. An \<open>int\<close> prints its digits. A
  \<open>float\<close> prints the shortest decimal that reads back as the same double: for a
  literal of at most 15 significant digits below \<open>10^16\<close> that is the literal without
  leading and trailing zeros, with one digit kept on each side of the point. (Longer
  literals and those below \<open>10^-4\<close> print otherwise in Python.)
\<close>

definition show_num :: "pynum \<Rightarrow> string" where
  "show_num x =
     (case x of
        PyInt n \<Rightarrow> show_nat n
      | PyFloat ip fp \<Rightarrow>
          (let i = dropWhile (\<lambda>c. c = CHR ''0'') ip;
               f = rev (dropWhile (\<lambda>c. c = CHR ''0'') (rev fp))
           in (if i = [] then ''0'' else i) @ ''.'' @ (if f = [] then ''0'' else f)))"

section \<open>Post-geocoding flags and their merge\<close>

definition state_abbrev :: "(string \<times> string) list" where
  "state_abbrev =
     [(''alabama'', ''al''), (''alaska'', ''ak''), (''arizona'', ''az''), (''arkansas'', ''ar''),
      (''california'', ''ca''), (''colorado'', ''co''), (''connecticut'', ''ct''),
      (''delaware'', ''de''), (''florida'', ''fl''), (''georgia'', ''ga''), (''hawaii'', ''hi''),
      (''idaho'', ''id''), (''illinois'', ''il''), (''indiana'', ''in''), (''iowa'', ''ia''),
      (''kansas'', ''ks''), (''kentucky'', ''ky''), (''louisiana'', ''la''), (''maine'', ''me''),
      (''maryland'', ''md''), (''massachusetts'', ''ma''), (''michigan'', ''mi''),
      (''minnesota'', ''mn''), (''mississippi'', ''ms''), (''missouri'', ''mo''),
      (''montana'', ''mt''), (''nebraska'', ''ne''), (''nevada'', ''nv''),
      (''new hampshire'', ''nh''), (''new jersey'', ''nj''), (''new mexico'', ''nm''),
      (''new york'', ''ny''), (''north carolina'', ''nc''), (''north dakota'', ''nd''),
      (''ohio'', ''oh''), (''oklahoma'', ''ok''), (''oregon'', ''or''), (''pennsylvania'', ''pa''),
      (''rhode island'', ''ri''), (''south carolina'', ''sc''), (''south dakota'', ''sd''),
      (''tennessee'', ''tn''), (''texas'', ''tx''), (''utah'', ''ut''), (''vermont'', ''vt''),
      (''virginia'', ''va''), (''washington'', ''wa''), (''west virginia'', ''wv''),
      (''wisconsin'', ''wi''), (''wyoming'', ''wy'')]"

text \<open>The list \<open>post_flags\<close> of main, for a row whose call gave this location type and
  formatted address.\<close>

definition post_geocode_flags :: "row \<Rightarrow> string \<Rightarrow> string \<Rightarrow> string list" where
  "post_geocode_flags r loc_type formatted_address =
     (let post_flags = [];
          post_flags = (if loc_type = ''GEOMETRIC_CENTER''
                        then post_flags @ [''Geometric center of area''] else post_flags);
          formatted_lower = lower formatted_address;
          post_flags =
            (if formatted_address \<noteq> []
             then (case province_state r of
                     Str s \<Rightarrow>
                       (let expected_state = strip s;
                            expected_state_lower = lower expected_state;
                            state_found =
                              (contains expected_state_lower formatted_lower
                               \<or> contains (case map_of state_abbrev expected_state_lower of
                                             Some a \<Rightarrow> a | None \<Rightarrow> []) formatted_lower)
                        in if expected_state \<noteq> [] \<and> \<not> state_found
                           then post_flags @ [''State mismatch (expected '' @ expected_state @ '')'']
                           else post_flags)
                   | _ \<Rightarrow> post_flags)
             else post_flags);
          post_flags =
            (if formatted_address \<noteq> []
                \<and> (contains ''india'' formatted_lower \<or> contains ''uk'' formatted_lower
                    \<or> contains ''canada'' formatted_lower)
                \<and> \<not> contains ''usa'' formatted_lower
                \<and> \<not> contains ''united states'' formatted_lower
             then post_flags @ [''UNEXPECTED COUNTRY - verify result!'']
             else post_flags)
      in post_flags)"

text \<open>\<open>"UNEXPECTED COUNTRY" in f or "State mismatch" in f\<close>\<close>

definition serious :: "string \<Rightarrow> bool" where
  "serious f = (contains ''UNEXPECTED COUNTRY'' f \<or> contains ''State mismatch'' f)"

text \<open>The block \<open>if post_flags: ...\<close> of main, on the row's two flag columns.\<close>

definition merge_post_flags :: "string list \<Rightarrow> row \<Rightarrow> row" where
  "merge_post_flags post_flags r =
     (if post_flags \<noteq> []
      then (let existing_flags = flag_reason r;
                r = (if existing_flags \<noteq> []
                     then r\<lparr>flag_reason := existing_flags @ ''; '' @ join ''; '' post_flags\<rparr>
                     else r\<lparr>flag_reason := join ''; '' post_flags\<rparr>)
            in if list_ex serious post_flags then r\<lparr>flag_status := ''WARNING''\<rparr>
               else if flag_status r = ''OK'' then r\<lparr>flag_status := ''REVIEW''\<rparr>
               else r)
      else r)"

section \<open>main: the pre-processing pass and the geocoding loop\<close>

text \<open>The pre-processing loop writes both flag columns of every row.\<close>

definition preflag :: "row \<Rightarrow> row" where
  "preflag r = r\<lparr>flag_status := fst (flag_potential_issues r),
                  flag_reason := snd (flag_potential_issues r)\<rparr>"

text \<open>The block \<open>if distance and bearing: ...\<close> for a row geocoded at \<open>(lat, lon)\<close>.\<close>

definition shift_row :: "string \<Rightarrow> real \<Rightarrow> real \<Rightarrow> row \<Rightarrow> row" where
  "shift_row prec lat lon r =
     (if prec \<noteq> []
      then (case parse_directional_offset prec of
              Some (distance, bearing) \<Rightarrow>
                (if truthy distance \<and> truthy bearing
                 then (let (lat_shifted, lon_shifted) =
                             apply_offset lat lon (num_val distance) (num_val bearing)
                       in r\<lparr>latitude_shifted := Some lat_shifted,
                            longitude_shifted := Some lon_shifted,
                            offset_applied := show_num distance @ ''mi at ''
                                              @ show_num bearing @ [CHR 0xB0]\<rparr>)
                 else r)
            | None \<Rightarrow> r)
      else r)"

text \<open>What one pass of the loop body did with its row.\<close>

datatype outcome = Skipped | Geocoded | Failed

text \<open>
  One pass of the loop body for a row that needs geocoding: the row as it is written
  back, the counter to increment, and the addresses sent to the external service (none or
  one). The test \<open>if lat and lon\<close> is Python truthiness: a coordinate that is \<open>None\<close>
  or zero fails it.
\<close>

definition geocode_row :: "(string \<Rightarrow> geocode_result) \<Rightarrow> row \<Rightarrow> row \<times> outcome \<times> string list" where
  "geocode_row resolve r =
     (if is_too_vague r then (r, Skipped, [])
      else (case construct_address r of
              None \<Rightarrow> (r, Skipped, [])
            | Some address \<Rightarrow>
                (if address = [] then (r, Skipped, [])
                 else (let base_address = extract_base_location address
                       in case geocode_address_google resolve base_address of
                            Some (lat, lon, loc_type, formatted_address) \<Rightarrow>
                              (if lat \<noteq> 0 \<and> lon \<noteq> 0
                               then (let r1 = r\<lparr>latitude := Some lat, longitude := Some lon,
                                                geocoded_address := address,
                                                google_formatted_address := formatted_address,
                                                location_type := loc_type\<rparr>;
                                         r2 = shift_row (strip (str_get (prec_location r))) lat lon r1;
                                         r3 = merge_post_flags
                                                (post_geocode_flags r loc_type formatted_address) r2
                                     in (r3, Geocoded, [base_address]))
                               else (r, Failed, [base_address]))
                          | None \<Rightarrow> (r, Failed, [base_address])))))"

text \<open>
  The state of the geocoding loop: the rows written back so far, the three counters, and
  the calls made to the external service (row index and address sent), oldest first.
\<close>

record run_state =
  table :: "row list"
  geocoded_count :: nat
  skipped_vague :: nat
  failed_count :: nat
  calls :: "(nat \<times> string) list"

definition count :: "outcome \<Rightarrow> run_state \<Rightarrow> run_state" where
  "count oc st =
     (case oc of
        Skipped \<Rightarrow> st\<lparr>skipped_vague := skipped_vague st + 1\<rparr>
      | Geocoded \<Rightarrow> st\<lparr>geocoded_count := geocoded_count st + 1\<rparr>
      | Failed \<Rightarrow> st\<lparr>failed_count := failed_count st + 1\<rparr>)"

text \<open>The loop \<open>for idx, row in df[needs_geocoding].iterrows()\<close>: rows that have both
  coordinates are not visited and stay as they are.\<close>

fun geocode_rows :: "(string \<Rightarrow> geocode_result) \<Rightarrow> nat \<Rightarrow> row list \<Rightarrow> run_state \<Rightarrow> run_state" where
  "geocode_rows resolve idx [] st = st"
| "geocode_rows resolve idx (r # rs) st =
     geocode_rows resolve (Suc idx) rs
       (if should_geocode r
        then (case geocode_row resolve r of
                (r', oc, sent) \<Rightarrow>
                  count oc (st\<lparr>table := table st @ [r'],
                               calls := calls st @ map (Pair idx) sent\<rparr>))
        else st\<lparr>table := table st @ [r]\<rparr>)"

text \<open>
  A run of main on a loaded table. It returns early, writing nothing, when no row needs
  geocoding; it exits when the API key is not set; otherwise it saves the table the loop
  leaves.
\<close>

datatype run_result = AllHaveCoordinates | NoApiKey | Saved run_state

definition init_state :: run_state where
  "init_state = \<lparr>table = [], geocoded_count = 0, skipped_vague = 0, failed_count = 0, calls = []\<rparr>"

definition main :: "string \<Rightarrow> (string \<Rightarrow> geocode_result) \<Rightarrow> row list \<Rightarrow> run_result" where
  "main api_key resolve rows =
     (let df = map preflag rows;
          total_to_geocode = length (filter should_geocode df)
      in if total_to_geocode = 0 then AllHaveCoordinates
         else if api_key = ''YOUR_GOOGLE_API_KEY_HERE'' \<or> api_key = [] then NoApiKey
         else Saved (geocode_rows resolve 0 df init_state))"

text \<open>The rows a run writes to the output file; an early end writes none.\<close>

definition output_rows :: "run_result \<Rightarrow> row list" where
  "output_rows res = (case res of Saved st \<Rightarrow> table st | _ \<Rightarrow> [])"

text \<open>The order of the three status values: OK, then REVIEW, then WARNING.\<close>

definition severity :: "string \<Rightarrow> nat" where
  "severity s = (if s = ''WARNING'' then 2 else if s = ''REVIEW'' then 1 else 0)"

section \<open>Example records and services\<close>

definition blank_row :: row where
  "blank_row = \<lparr>prec_location = NaN, city = NaN, county = NaN, province_state = NaN,
                 country = NaN, latitude = None, longitude = None, geocoded_address = [],
                 google_formatted_address = [], location_type = [], flag_status = [],
                 flag_reason = [], latitude_shifted = None, longitude_shifted = None,
                 offset_applied = []\<rparr>"

definition acronym_row :: row where
  "acronym_row = blank_row\<lparr>prec_location := Str ''ABC'', province_state := Str ''KS''\<rparr>"

definition abbrev_state_row :: row where
  "abbrev_state_row = blank_row\<lparr>city := Str ''Springfield'', province_state := Str ''KS''\<rparr>"

definition ok_row :: row where
  "ok_row = blank_row\<lparr>city := Str ''Topeka'', province_state := Str ''Kansas'',
                       flag_status := ''OK''\<rparr>"

definition review_row :: row where
  "review_row = blank_row\<lparr>prec_location := Str ''5 miles west of Denver, CO'',
                           province_state := Str ''Colorado'', flag_status := ''REVIEW'',
                           flag_reason := ''Directional offset - API may ignore distance/direction''\<rparr>"

definition topeka_row :: row where
  "topeka_row = blank_row\<lparr>prec_location := Str ''10 mi E of Topeka'',
                           province_state := Str ''KS'', country := NoColumn\<rparr>"

definition topeka_resolve :: "string \<Rightarrow> geocode_result" where
  "topeka_resolve address = Success 39.0473 (- 95.6752) ''APPROXIMATE'' ''Topeka, KS, USA''"

definition north_row :: row where
  "north_row = blank_row\<lparr>prec_location := Str ''5mi N of Topeka'',
                          province_state := Str ''KS''\<rparr>"

definition meridian_row :: row where
  "meridian_row = blank_row\<lparr>city := Str ''Greenwich'', province_state := Str ''London'',
                             country := Str ''UK''\<rparr>"

definition meridian_resolve :: "string \<Rightarrow> geocode_result" where
  "meridian_resolve address = Success 51.4779 0 ''APPROXIMATE'' ''Greenwich, London, UK''"

definition county_row :: row where
  "county_row = blank_row\<lparr>county := Str ''Shawnee'', province_state := Str ''KS''\<rparr>"

definition springfield_row :: row where
  "springfield_row = blank_row\<lparr>city := Str ''Springfield'', province_state := Str ''Kansas''\<rparr>"

definition lost_row :: row where
  "lost_row = blank_row\<lparr>city := Str ''Atlantis'', province_state := Str ''Kansas'',
                         flag_status := ''OK''\<rparr>"

definition springfield_resolve :: "string \<Rightarrow> geocode_result" where
  "springfield_resolve address =
     (if address = ''Springfield, Kansas, USA''
      then Success 39.7817 (- 89.6501) ''APPROXIMATE'' ''Springfield, IL, USA''
      else ZeroResults)"

text \<open>The first of these rows after a run with that service.\<close>

definition flagged_row :: row where
  "flagged_row = springfield_row\<lparr>latitude := Some 39.7817, longitude := Some (- 89.6501),
                   geocoded_address := ''Springfield, Kansas, USA'',
                   google_formatted_address := ''Springfield, IL, USA'',
                   location_type := ''APPROXIMATE'', flag_status := ''WARNING'',
                   flag_reason := ''State mismatch (expected Kansas)''\<rparr>"

section \<open>Properties\<close>

subsection \<open>Merging the post-geocoding flags\<close>

lemma serious_implies_nonempty: "list_ex serious post_flags \<Longrightarrow> post_flags \<noteq> []"
  by auto

text \<open>
  C5: the merge of the post-geocoding flags never lowers the status. If some post-flag
  is a state-mismatch or unexpected-country flag, the status becomes WARNING; otherwise,
  if there is a post-flag and the status is OK, it becomes REVIEW; in every other case it
  is unchanged. The reason trail keeps what it held, and the post-flags are appended to it.
\<close>

theorem C5_merge_never_lowers:
  "(list_ex serious post_flags \<longrightarrow> flag_status (merge_post_flags post_flags r) = ''WARNING'')
   \<and> (\<not> list_ex serious post_flags \<and> post_flags \<noteq> [] \<and> flag_status r = ''OK''
        \<longrightarrow> flag_status (merge_post_flags post_flags r) = ''REVIEW'')
   \<and> (\<not> list_ex serious post_flags \<and> (post_flags = [] \<or> flag_status r \<noteq> ''OK'')
        \<longrightarrow> flag_status (merge_post_flags post_flags r) = flag_status r)
   \<and> severity (flag_status r) \<le> severity (flag_status (merge_post_flags post_flags r))
   \<and> take (length (flag_reason r)) (flag_reason (merge_post_flags post_flags r)) = flag_reason r
   \<and> (post_flags \<noteq> [] \<longrightarrow>
        flag_reason (merge_post_flags post_flags r)
        = (if flag_reason r = [] then join ''; '' post_flags
           else flag_reason r @ ''; '' @ join ''; '' post_flags))"
proof -
  let ?r' = "merge_post_flags post_flags r"
  have a: "list_ex serious post_flags \<longrightarrow> flag_status ?r' = ''WARNING''"
    using serious_implies_nonempty [of post_flags] by (simp add: merge_post_flags_def Let_def)
  have b: "\<not> list_ex serious post_flags \<and> post_flags \<noteq> [] \<and> flag_status r = ''OK''
           \<longrightarrow> flag_status ?r' = ''REVIEW''"
    by (simp add: merge_post_flags_def Let_def)
  have c: "\<not> list_ex serious post_flags \<and> (post_flags = [] \<or> flag_status r \<noteq> ''OK'')
           \<longrightarrow> flag_status ?r' = flag_status r"
    by (simp add: merge_post_flags_def Let_def)
  have d: "severity (flag_status r) \<le> severity (flag_status ?r')"
    by (simp add: merge_post_flags_def Let_def severity_def)
  have e: "take (length (flag_reason r)) (flag_reason ?r') = flag_reason r"
    by (simp add: merge_post_flags_def Let_def)
  have f: "post_flags \<noteq> [] \<longrightarrow>
             flag_reason ?r' = (if flag_reason r = [] then join ''; '' post_flags
                                else flag_reason r @ ''; '' @ join ''; '' post_flags)"
    by (simp add: merge_post_flags_def Let_def)
  from a b c d e f show ?thesis by blast
qed

theorem C5_merge_never_lowers_witness:
  "list_ex serious [''State mismatch (expected Kansas)'']
   \<and> flag_status (merge_post_flags [''State mismatch (expected Kansas)''] ok_row) = ''WARNING''
   \<and> \<not> list_ex serious [''Geometric center of area'']
   \<and> flag_status ok_row = ''OK''
   \<and> flag_status (merge_post_flags [''Geometric center of area''] ok_row) = ''REVIEW''
   \<and> flag_status review_row \<noteq> ''OK''
   \<and> flag_status (merge_post_flags [''Geometric center of area''] review_row) = ''REVIEW''
   \<and> flag_reason (merge_post_flags [''Geometric center of area''] review_row)
       = ''Directional offset - API may ignore distance/direction; Geometric center of area''"
proof -
  have s1: "list_ex serious [''State mismatch (expected Kansas)'']"
    by (simp add: serious_def)
  have s2: "\<not> list_ex serious [''Geometric center of area'']"
    by (simp add: serious_def)
  have o: "flag_status ok_row = ''OK''"
    by (simp add: ok_row_def blank_row_def)
  have v: "flag_status review_row = ''REVIEW''"
          "flag_reason review_row = ''Directional offset - API may ignore distance/direction''"
    by (simp_all add: review_row_def blank_row_def)
  show ?thesis
    using C5_merge_never_lowers [of "[''State mismatch (expected Kansas)'']" ok_row]
          C5_merge_never_lowers [of "[''Geometric center of area'']" ok_row]
          C5_merge_never_lowers [of "[''Geometric center of area'']" review_row]
          s1 s2 o v
    by simp
qed

subsection \<open>The pre-geocoding flags\<close>

lemma acronym_flags: "collect_flags acronym_row = [''Possible acronym/abbreviation'']"
  unfolding acronym_row_def blank_row_def by code_simp

text \<open>
  C6: a record on which exactly one flag fires, and no critical one, is at REVIEW when
  that flag is the directional-offset, vague-reference or abbreviated/acronym flag. The
  source tests the single flag for the word "abbreviated", which the flag "Possible
  acronym/abbreviation" does not contain: the record below fires that flag alone and is
  classified OK.
\<close>

theorem C6_single_acronym_flag_is_ok:
  "collect_flags acronym_row = [''Possible acronym/abbreviation'']
   \<and> \<not> list_ex (mentions critical_keywords) (collect_flags acronym_row)
   \<and> flag_potential_issues acronym_row = (''OK'', ''Possible acronym/abbreviation'')"
  unfolding flag_potential_issues_def acronym_flags by code_simp

subsection \<open>The post-geocoding flags\<close>

text \<open>
  C7: when the state of the record is absent from the formatted address, both as a full
  name and as an abbreviation, the flag "State mismatch" is raised, also for a state
  given as a two-letter abbreviation. The source looks the state up in a table keyed by
  full names and falls back to the empty string, which every address contains: for the
  state KS and an address in Illinois no flag is raised.
\<close>

theorem C7_abbreviated_state_not_checked:
  "province_state abbrev_state_row = Str ''KS''
   \<and> \<not> contains ''kansas'' (lower ''Springfield, IL 62701, USA'')
   \<and> \<not> contains ''ks'' (lower ''Springfield, IL 62701, USA'')
   \<and> post_geocode_flags abbrev_state_row ''APPROXIMATE'' ''Springfield, IL 62701, USA'' = []"
  unfolding abbrev_state_row_def blank_row_def by code_simp

subsection \<open>The address\<close>

lemma construct_address_never_none: "construct_address r \<noteq> None"
  by (simp add: construct_address_def Let_def)

text \<open>
  C8: construct\_address joins the non-empty parts with a comma and a space, puts USA
  for a missing country, and returns nothing when every part is empty. The default for
  the country is appended before the list of parts is tested, so the list is never empty:
  for the record with no part at all the result is the address USA.
\<close>

theorem C8_empty_record_address:
  "\<not> has (prec_location blank_row) \<and> \<not> has (city blank_row) \<and> \<not> has (county blank_row)
   \<and> \<not> has (province_state blank_row) \<and> \<not> has (country blank_row)
   \<and> construct_address blank_row = Some ''USA''"
  unfolding blank_row_def by code_simp

subsection \<open>The projection, in exact arithmetic\<close>

lemma atan2_pos: "0 < y \<Longrightarrow> 0 < atan2 y x"
proof -
  assume y: "0 < y"
  have p: "- (pi / 2) < arctan (y / x)" by (rule arctan_lbound)
  consider "0 < x" | "x < 0" | "x = 0" by linarith
  then show ?thesis
  proof cases
    case 1
    then have "0 < y / x" using y by simp
    then show ?thesis using 1 by (simp add: atan2_def)
  next
    case 2
    have "0 < arctan (y / x) + pi" using p pi_gt_zero by linarith
    then show ?thesis using 2 y by (simp add: atan2_def)
  next
    case 3
    then show ?thesis using y by (simp add: atan2_def)
  qed
qed

lemma degrees_radians: "degrees (radians x) = x"
  by (simp add: degrees_def radians_def)

lemma degrees_add: "degrees (a + b) = degrees a + degrees b"
  by (simp add: degrees_def distrib_right add_divide_distrib)

lemma degrees_pos: "0 < a \<Longrightarrow> 0 < degrees a"
  by (simp add: degrees_def)

lemma degrees_mono: "a \<le> b \<Longrightarrow> degrees a \<le> degrees b"
  by (simp add: degrees_def divide_right_mono mult_right_mono)

lemma radians_90: "radians 90 = pi / 2"
  by (simp add: radians_def)

lemma radians_quadrant:
  assumes "0 < lat" "lat < 90"
  shows "0 < radians lat" "radians lat < pi / 2"
proof -
  show "0 < radians lat" using assms by (simp add: radians_def)
  have "lat * (pi / 180) < 90 * (pi / 180)"
    using assms by (intro mult_strict_right_mono) simp_all
  then show "radians lat < pi / 2" by (simp add: radians_def)
qed

lemma ten_miles_small: "0 < (10::real) / 3959" "(10::real) / 3959 < pi / 2"
proof -
  show "0 < (10::real) / 3959" by simp
  have "(10::real) / 3959 < 1" by simp
  also have "\<dots> \<le> pi / 2" using pi_ge_two by simp
  finally show "(10::real) / 3959 < pi / 2" .
qed

lemma apply_offset_east:
  assumes lat: "0 < lat" "lat < 90"
  shows "lon < snd (apply_offset lat lon 10 90)"
    and "fst (apply_offset lat lon 10 90) \<le> lat"
    and "lat - degrees (10 / 3959) \<le> fst (apply_offset lat lon 10 90)"
proof -
  let ?a = "radians lat"
  let ?d = "(10::real) / 3959"
  let ?n = "arcsin (sin ?a * cos ?d)"
  have a: "0 < ?a" "?a < pi / 2" using radians_quadrant [OF lat] by simp_all
  have d: "0 < ?d" "?d < pi / 2" using ten_miles_small by simp_all
  have fst_eq: "fst (apply_offset lat lon 10 90) = degrees ?n"
    by (simp add: apply_offset_def Let_def radians_90)
  have snd_eq: "snd (apply_offset lat lon 10 90)
        = degrees (radians lon + atan2 (sin ?d * cos ?a) (cos ?d - sin ?a * sin ?n))"
    by (simp add: apply_offset_def Let_def radians_90)
  have sa: "0 < sin ?a" using a by (intro sin_gt_zero2) simp_all
  have ca: "0 < cos ?a" using a by (intro cos_gt_zero) simp_all
  have sd: "0 < sin ?d" using d by (intro sin_gt_zero2) simp_all
  have cd: "0 < cos ?d" using d by (intro cos_gt_zero) simp_all
  have "0 < sin ?d * cos ?a" using sd ca by simp
  then have "0 < atan2 (sin ?d * cos ?a) (cos ?d - sin ?a * sin ?n)" by (rule atan2_pos)
  then have "0 < degrees (atan2 (sin ?d * cos ?a) (cos ?d - sin ?a * sin ?n))" by (rule degrees_pos)
  then show "lon < snd (apply_offset lat lon 10 90)"
    by (simp add: snd_eq degrees_add degrees_radians)
  have up: "sin ?a * cos ?d \<le> sin ?a"
    using sa cos_le_one [of ?d] by (simp add: mult_left_le)
  have lo0: "0 \<le> sin ?a * cos ?d" using sa cd by simp
  have "?n \<le> arcsin (sin ?a)"
    using lo0 up sin_le_one [of ?a] by (intro arcsin_le_arcsin) simp_all
  also have "arcsin (sin ?a) = ?a" using a by (intro arcsin_sin) simp_all
  finally have "degrees ?n \<le> degrees ?a" by (rule degrees_mono)
  then show "fst (apply_offset lat lon 10 90) \<le> lat"
    by (simp add: fst_eq degrees_radians)
  have "sin (?a - ?d) = sin ?a * cos ?d - cos ?a * sin ?d" by (rule sin_diff)
  also have "\<dots> \<le> sin ?a * cos ?d" using ca sd by simp
  finally have le: "sin (?a - ?d) \<le> sin ?a * cos ?d" .
  have one: "sin ?a * cos ?d \<le> 1"
    using up sin_le_one [of ?a] by linarith
  have "arcsin (sin (?a - ?d)) \<le> ?n"
    using le one sin_ge_minus_one [of "?a - ?d"]
    by (intro arcsin_le_arcsin) simp_all
  moreover have "arcsin (sin (?a - ?d)) = ?a - ?d"
    using a d by (intro arcsin_sin) simp_all
  ultimately have "?a - ?d \<le> ?n" by simp
  then have "degrees (?a - ?d) \<le> degrees ?n" by (rule degrees_mono)
  moreover have "degrees (?a - ?d) = lat - degrees ?d"
    using degrees_add [of "?a - ?d" ?d] by (simp add: degrees_radians)
  ultimately show "lat - degrees (10 / 3959) \<le> fst (apply_offset lat lon 10 90)"
    by (simp add: fst_eq)
qed

text \<open>
  In exact arithmetic a projection over the distance zero returns its starting point. The
  program computes in doubles, where the conversions to radians and back and the
  functions \<open>sin\<close> and \<open>asin\<close> round; this lemma says nothing about those.
\<close>

lemma apply_offset_zero_distance:
  assumes "- 90 \<le> lat" "lat \<le> 90"
  shows "apply_offset lat lon 0 bearing = (lat, lon)"
proof -
  have r: "- (pi / 2) \<le> radians lat" "radians lat \<le> pi / 2"
  proof -
    have "(- 90) * (pi / 180) \<le> lat * (pi / 180)"
      using assms by (intro mult_right_mono) simp_all
    then show "- (pi / 2) \<le> radians lat" by (simp add: radians_def)
    have "lat * (pi / 180) \<le> 90 * (pi / 180)"
      using assms by (intro mult_right_mono) simp_all
    then show "radians lat \<le> pi / 2" by (simp add: radians_def)
  qed
  have n: "arcsin (sin (radians lat)) = radians lat" using r by (rule arcsin_sin)
  have "1 - sin (radians lat) * sin (radians lat) = cos (radians lat) * cos (radians lat)"
    using sin_cos_squared_add [of "radians lat"] by (simp add: power2_eq_square algebra_simps)
  moreover have "0 \<le> cos (radians lat) * cos (radians lat)" by simp
  ultimately have z: "atan2 0 (1 - sin (radians lat) * sin (radians lat)) = 0"
    by (simp add: atan2_def)
  show ?thesis
    by (simp add: apply_offset_def Let_def n z degrees_radians)
qed


lemma one_minus_cos_le: "1 - cos d \<le> d\<^sup>2 / 2" for d :: real
proof -
  have "cos d = 1 - 2 * (sin (d / 2))\<^sup>2"
    using cos_double_sin [of "d / 2"] by simp
  moreover have "(sin (d / 2))\<^sup>2 \<le> (d / 2)\<^sup>2"
    using abs_sin_x_le_abs_x [of "d / 2"] unfolding abs_le_square_iff .
  ultimately show ?thesis by (simp add: power2_eq_square)
qed

lemma sin_le_cos_octant:
  assumes "0 \<le> a" "a \<le> pi / 4"
  shows "sin a \<le> cos a"
proof -
  have "sin a \<le> sin (pi / 4)"
    using assms by (intro sin_monotone_2pi_le) simp_all
  moreover have "cos (pi / 4) \<le> cos a"
    using assms by (intro cos_monotone_0_pi_le) simp_all
  ultimately show ?thesis by (simp add: sin_45 cos_45)
qed

lemma radians_octant:
  assumes "0 < lat" "lat \<le> 45"
  shows "radians lat \<le> pi / 4"
proof -
  have "lat * (pi / 180) \<le> 45 * (pi / 180)"
    using assms by (intro mult_right_mono) simp_all
  then show ?thesis by (simp add: radians_def)
qed

text \<open>
  Due east the latitude changes by a second-order amount only: by the mean value theorem
  for \<open>sin\<close> between the new and the old latitude, the change is at most
  \<open>tan lat * (1 - cos d)\<close>, which up to 45 degrees north is at most \<open>d\<^sup>2 / 2\<close>.
\<close>

lemma apply_offset_east_latitude:
  assumes lat: "0 < lat" "lat \<le> 45"
  shows "lat - fst (apply_offset lat lon 10 90) < 1 / 1000"
proof -
  let ?a = "radians lat"
  let ?d = "(10::real) / 3959"
  let ?n = "arcsin (sin ?a * cos ?d)"
  have lat90: "lat < 90" using lat by simp
  have a: "0 < ?a" "?a < pi / 2" using radians_quadrant [OF lat(1) lat90] by simp_all
  have a4: "?a \<le> pi / 4" using radians_octant [OF lat] .
  have d: "0 < ?d" "?d < pi / 2" using ten_miles_small by simp_all
  have fst_eq: "fst (apply_offset lat lon 10 90) = degrees ?n"
    by (simp add: apply_offset_def Let_def radians_90)
  have sa: "0 < sin ?a" using a by (intro sin_gt_zero2) simp_all
  have ca: "0 < cos ?a" using a by (intro cos_gt_zero) simp_all
  have cd: "0 < cos ?d" using d by (intro cos_gt_zero) simp_all
  have up: "sin ?a * cos ?d \<le> sin ?a"
    using sa cos_le_one [of ?d] by (simp add: mult_left_le)
  have lo0: "0 \<le> sin ?a * cos ?d" using sa cd by simp
  have one: "sin ?a * cos ?d \<le> 1" using up sin_le_one [of ?a] by linarith
  have n_le: "?n \<le> ?a"
  proof -
    have "?n \<le> arcsin (sin ?a)"
      using lo0 up sin_le_one [of ?a] by (intro arcsin_le_arcsin) simp_all
    also have "arcsin (sin ?a) = ?a" using a by (intro arcsin_sin) simp_all
    finally show ?thesis .
  qed
  have n_ge: "0 \<le> ?n"
  proof -
    have "arcsin 0 \<le> ?n" using lo0 one by (intro arcsin_le_arcsin) simp_all
    then show ?thesis by simp
  qed
  have sin_n: "sin ?n = sin ?a * cos ?d"
    using lo0 one by (intro sin_arcsin) simp_all
  have gap: "(?a - ?n) * cos ?a \<le> sin ?a * (1 - cos ?d)"
  proof (cases "?n < ?a")
    case True
    have "\<exists>z. ?n < z \<and> z < ?a \<and> sin ?a - sin ?n = (?a - ?n) * cos z"
      using True by (intro MVT2) auto
    then obtain z where z: "?n < z" "z < ?a" "sin ?a - sin ?n = (?a - ?n) * cos z" by blast
    have "cos ?a \<le> cos z"
      using z(1,2) n_ge a(2) by (intro cos_monotone_0_pi_le) simp_all
    then have "(?a - ?n) * cos ?a \<le> (?a - ?n) * cos z"
      using True by (intro mult_left_mono) simp_all
    also have "\<dots> = sin ?a * (1 - cos ?d)"
      using z(3) sin_n by (simp add: algebra_simps)
    finally show ?thesis .
  next
    case False
    with n_le have "?a - ?n = 0" by simp
    moreover have "0 \<le> sin ?a * (1 - cos ?d)" using sa by simp
    ultimately show ?thesis by simp
  qed
  have "(?a - ?n) * cos ?a \<le> cos ?a * (?d\<^sup>2 / 2)"
  proof -
    have "sin ?a * (1 - cos ?d) \<le> cos ?a * (1 - cos ?d)"
      using sin_le_cos_octant [of ?a] a(1) a4 by (intro mult_right_mono) simp_all
    also have "\<dots> \<le> cos ?a * (?d\<^sup>2 / 2)"
      using one_minus_cos_le [of ?d] ca by (intro mult_left_mono) simp_all
    finally show ?thesis using gap by linarith
  qed
  then have small: "?a - ?n \<le> ?d\<^sup>2 / 2"
    using ca by (simp add: mult.commute)
  have "degrees (?a - ?n) \<le> degrees (?d\<^sup>2 / 2)" using small by (rule degrees_mono)
  moreover have "degrees (?a - ?n) = lat - degrees ?n"
    using degrees_add [of "?a - ?n" ?n] by (simp add: degrees_radians)
  moreover have "degrees (?d\<^sup>2 / 2) < 1 / 1000"
  proof -
    have "degrees (?d\<^sup>2 / 2) = (?d\<^sup>2 / 2 * 180) / pi" by (simp add: degrees_def)
    also have "\<dots> \<le> (?d\<^sup>2 / 2 * 180) / 2"
      using pi_ge_two by (intro divide_left_mono) simp_all
    also have "\<dots> < 1 / 1000" by (simp add: power2_eq_square)
    finally show ?thesis .
  qed
  ultimately show ?thesis by (simp add: fst_eq)
qed

subsection \<open>Runs of main on one row\<close>

lemma preflag_fields [simp]:
  "prec_location (preflag r) = prec_location r"
  "city (preflag r) = city r"
  "county (preflag r) = county r"
  "province_state (preflag r) = province_state r"
  "country (preflag r) = country r"
  "latitude (preflag r) = latitude r"
  "longitude (preflag r) = longitude r"
  by (simp_all add: preflag_def)

lemma should_geocode_preflag [simp]: "should_geocode (preflag r) = should_geocode r"
  by (simp add: should_geocode_def)

lemma is_too_vague_preflag [simp]: "is_too_vague (preflag r) = is_too_vague r"
  by (simp add: is_too_vague_def)

lemma construct_address_preflag [simp]: "construct_address (preflag r) = construct_address r"
  by (simp add: construct_address_def)

lemma post_geocode_flags_preflag [simp]:
  "post_geocode_flags (preflag r) t f = post_geocode_flags r t f"
  by (simp add: post_geocode_flags_def Let_def)

lemma merge_post_flags_fields [simp]:
  "latitude (merge_post_flags p r) = latitude r"
  "longitude (merge_post_flags p r) = longitude r"
  "latitude_shifted (merge_post_flags p r) = latitude_shifted r"
  "longitude_shifted (merge_post_flags p r) = longitude_shifted r"
  "offset_applied (merge_post_flags p r) = offset_applied r"
  "google_formatted_address (merge_post_flags p r) = google_formatted_address r"
  "location_type (merge_post_flags p r) = location_type r"
  by (simp_all add: merge_post_flags_def Let_def)

lemma shift_row_fields [simp]:
  "latitude (shift_row prec lat lon r) = latitude r"
  "longitude (shift_row prec lat lon r) = longitude r"
  "google_formatted_address (shift_row prec lat lon r) = google_formatted_address r"
  "location_type (shift_row prec lat lon r) = location_type r"
  by (simp_all add: shift_row_def split: option.split prod.split)

lemma main_single:
  assumes "should_geocode r" "api_key \<noteq> ''YOUR_GOOGLE_API_KEY_HERE''" "api_key \<noteq> []"
  shows "main api_key resolve [r] =
           Saved (case geocode_row resolve (preflag r) of
                    (r', oc, sent) \<Rightarrow>
                      count oc (init_state\<lparr>table := [r'], calls := map (Pair 0) sent\<rparr>))"
  using assms by (simp add: main_def init_state_def)

lemma topeka_parts:
  "should_geocode topeka_row"
  "is_too_vague topeka_row = False"
  "construct_address topeka_row = Some ''10 mi E of Topeka, KS, USA''"
  "strip (str_get (prec_location topeka_row)) = ''10 mi E of Topeka''"
  unfolding topeka_row_def blank_row_def by code_simp+

lemma topeka_text:
  "extract_base_location ''10 mi E of Topeka, KS, USA'' = ''Topeka, KS, USA''"
  "parse_directional_offset ''10 mi E of Topeka'' = Some (PyFloat ''10'' [], PyInt 90)"
  "truthy (PyFloat ''10'' [])" "truthy (PyInt 90)"
  "show_num (PyFloat ''10'' []) = ''10.0''" "show_num (PyInt 90) = ''90''"
  by code_simp+

lemma topeka_nums: "num_val (PyFloat ''10'' []) = 10" "num_val (PyInt 90) = 90"
  by (simp_all add: num_val_def digits_val_def digit_val_def code_def)

lemma topeka_geocode_row:
  assumes "resolve ''Topeka, KS, USA'' = Success lat lon loc_type formatted"
    and "lat \<noteq> 0" "lon \<noteq> 0"
  shows "geocode_row resolve (preflag topeka_row) =
           (merge_post_flags (post_geocode_flags topeka_row loc_type formatted)
              (shift_row ''10 mi E of Topeka'' lat lon
                 ((preflag topeka_row)\<lparr>latitude := Some lat, longitude := Some lon,
                     geocoded_address := ''10 mi E of Topeka, KS, USA'',
                     google_formatted_address := formatted, location_type := loc_type\<rparr>)),
            Geocoded, [''Topeka, KS, USA''])"
  using assms
  by (simp add: geocode_row_def Let_def topeka_parts topeka_text geocode_address_google_def)

lemma topeka_shift_row:
  "shift_row ''10 mi E of Topeka'' lat lon r =
     r\<lparr>latitude_shifted := Some (fst (apply_offset lat lon 10 90)),
       longitude_shifted := Some (snd (apply_offset lat lon 10 90)),
       offset_applied := ''10.0mi at 90'' @ [CHR 0xB0]\<rparr>"
  by (simp add: shift_row_def topeka_text topeka_nums split: prod.split)

lemma topeka_run:
  assumes "resolve ''Topeka, KS, USA'' = Success lat lon loc_type formatted"
    and "lat \<noteq> 0" "lon \<noteq> 0"
    and "api_key \<noteq> ''YOUR_GOOGLE_API_KEY_HERE''" "api_key \<noteq> []"
  shows "\<exists>r. output_rows (main api_key resolve [topeka_row]) = [r]
             \<and> latitude r = Some lat \<and> longitude r = Some lon
             \<and> offset_applied r = ''10.0mi at 90'' @ [CHR 0xB0]
             \<and> latitude_shifted r = Some (fst (apply_offset lat lon 10 90))
             \<and> longitude_shifted r = Some (snd (apply_offset lat lon 10 90))"
proof -
  have "main api_key resolve [topeka_row] =
          Saved (case geocode_row resolve (preflag topeka_row) of
                   (r', oc, sent) \<Rightarrow>
                     count oc (init_state\<lparr>table := [r'], calls := map (Pair 0) sent\<rparr>))"
    using assms(4,5) topeka_parts(1) by (rule_tac main_single)
  moreover note topeka_geocode_row [of resolve lat lon loc_type formatted]
  ultimately show ?thesis
    using assms(1-3)
    by (simp add: topeka_shift_row output_rows_def count_def init_state_def)
qed


text \<open>
  C4, as the source has it: for the record with precise location "10 mi E of Topeka", no
  city, no county and state KS, and a service that resolves the base address to a point
  between the equator and 45 degrees north (Topeka is at 39.05), the one output row
  carries the descriptor "10.0mi at 90" followed by the degree sign (the bearing of E is
  the \<open>int\<close> 90 of the table, printed without a decimal point), a shifted longitude
  strictly east of the base longitude, and a shifted latitude approximately equal to the
  base latitude: not above it, and less than a thousandth of a degree below it.
  Coordinates are exact reals.
\<close>

theorem C4_topeka_offset:
  assumes "resolve ''Topeka, KS, USA'' = Success lat lon loc_type formatted"
    and "0 < lat" "lat \<le> 45" "lon \<noteq> 0"
    and "api_key \<noteq> ''YOUR_GOOGLE_API_KEY_HERE''" "api_key \<noteq> []"
  shows "\<exists>r la lo. output_rows (main api_key resolve [topeka_row]) = [r]
             \<and> latitude r = Some lat \<and> longitude r = Some lon
             \<and> offset_applied r = ''10.0mi at 90'' @ [CHR 0xB0]
             \<and> latitude_shifted r = Some la \<and> longitude_shifted r = Some lo
             \<and> lon < lo \<and> la \<le> lat \<and> lat - la < 1 / 1000"
proof -
  from assms(2) have "lat \<noteq> 0" by simp
  from topeka_run [of resolve lat lon loc_type formatted api_key, OF assms(1) this assms(4-6)]
  obtain r where r: "output_rows (main api_key resolve [topeka_row]) = [r]"
      "latitude r = Some lat" "longitude r = Some lon"
      "offset_applied r = ''10.0mi at 90'' @ [CHR 0xB0]"
      "latitude_shifted r = Some (fst (apply_offset lat lon 10 90))"
      "longitude_shifted r = Some (snd (apply_offset lat lon 10 90))"
    by blast
  from assms(3) have "lat < 90" by simp
  from apply_offset_east [OF assms(2) this, of lon]
  have e: "lon < snd (apply_offset lat lon 10 90)" "fst (apply_offset lat lon 10 90) \<le> lat"
    by simp_all
  from r e apply_offset_east_latitude [OF assms(2,3), of lon] show ?thesis by blast
qed

theorem C4_topeka_offset_witness:
  "topeka_resolve ''Topeka, KS, USA'' = Success 39.0473 (- 95.6752) ''APPROXIMATE'' ''Topeka, KS, USA''
   \<and> (0::real) < 39.0473 \<and> (39.0473::real) \<le> 45 \<and> (- 95.6752::real) \<noteq> 0
   \<and> ''key'' \<noteq> ''YOUR_GOOGLE_API_KEY_HERE'' \<and> ''key'' \<noteq> []
   \<and> (\<exists>r la lo. output_rows (main ''key'' topeka_resolve [topeka_row]) = [r]
             \<and> latitude r = Some 39.0473 \<and> longitude r = Some (- 95.6752)
             \<and> offset_applied r = ''10.0mi at 90'' @ [CHR 0xB0]
             \<and> latitude_shifted r = Some la \<and> longitude_shifted r = Some lo
             \<and> - 95.6752 < lo \<and> la \<le> 39.0473 \<and> 39.0473 - la < 1 / 1000)"
proof -
  have a: "topeka_resolve ''Topeka, KS, USA'' = Success 39.0473 (- 95.6752) ''APPROXIMATE'' ''Topeka, KS, USA''"
    by (simp add: topeka_resolve_def)
  have b: "(0::real) < 39.0473" "(39.0473::real) \<le> 45" "(- 95.6752::real) \<noteq> 0" by simp_all
  have c: "''key'' \<noteq> ''YOUR_GOOGLE_API_KEY_HERE''" "''key'' \<noteq> []" by simp_all
  show ?thesis
    using C4_topeka_offset [of topeka_resolve "39.0473" "- 95.6752" "''APPROXIMATE''"
            "''Topeka, KS, USA''" "''key''"] a b c
    by blast
qed

text \<open>C4 as stated asks for the descriptor "10.0mi at 90.0" and the degree sign.\<close>

theorem C4_counterexample:
  "offset_applied (hd (output_rows (main ''key'' topeka_resolve [topeka_row])))
   \<noteq> ''10.0mi at 90.0'' @ [CHR 0xB0]"
proof -
  have a: "topeka_resolve ''Topeka, KS, USA'' = Success 39.0473 (- 95.6752) ''APPROXIMATE'' ''Topeka, KS, USA''"
    by (simp add: topeka_resolve_def)
  from topeka_run [of topeka_resolve "39.0473" "- 95.6752" "''APPROXIMATE''" "''Topeka, KS, USA''" "''key''", OF a]
  obtain r where "output_rows (main ''key'' topeka_resolve [topeka_row]) = [r]"
      "offset_applied r = ''10.0mi at 90'' @ [CHR 0xB0]"
    by auto
  then show ?thesis by simp
qed


lemma north_parts:
  "should_geocode north_row"
  "is_too_vague north_row = False"
  "construct_address north_row = Some ''5mi N of Topeka, KS, USA''"
  "strip (str_get (prec_location north_row)) = ''5mi N of Topeka''"
  "post_geocode_flags north_row ''APPROXIMATE'' ''Topeka, KS, USA'' = []"
  "flag_potential_issues north_row = (''OK'', [])"
  unfolding north_row_def blank_row_def by code_simp+

lemma north_text:
  "extract_base_location ''5mi N of Topeka, KS, USA'' = ''Topeka, KS, USA''"
  "parse_directional_offset ''5mi N of Topeka'' = Some (PyFloat ''5'' [], PyInt 0)"
  "truthy (PyInt 0) = False"
  by code_simp+

text \<open>
  C3: for a geocoded record whose precise location parses to a distance and a bearing,
  bearing N = 0 included, the shifted coordinates and the descriptor are written. The
  parser returns bearing 0 for N, as the test \<open>bearing is not None\<close> intends; main then
  tests \<open>if distance and bearing\<close>, which is false for the number 0: the record "5mi N
  of Topeka" is geocoded and gets no shifted coordinates.
\<close>

theorem C3_north_offset_dropped:
  "parse_directional_offset ''5mi N of Topeka'' = Some (PyFloat ''5'' [], PyInt 0)
   \<and> output_rows (main ''key'' topeka_resolve [north_row])
       = [north_row\<lparr>latitude := Some 39.0473, longitude := Some (- 95.6752),
                     geocoded_address := ''5mi N of Topeka, KS, USA'',
                     google_formatted_address := ''Topeka, KS, USA'',
                     location_type := ''APPROXIMATE'', flag_status := ''OK''\<rparr>]
   \<and> latitude_shifted (hd (output_rows (main ''key'' topeka_resolve [north_row]))) = None
   \<and> longitude_shifted (hd (output_rows (main ''key'' topeka_resolve [north_row]))) = None
   \<and> offset_applied (hd (output_rows (main ''key'' topeka_resolve [north_row]))) = []"
proof -
  have g: "geocode_row topeka_resolve (preflag north_row) =
             ((preflag north_row)\<lparr>latitude := Some 39.0473, longitude := Some (- 95.6752),
                     geocoded_address := ''5mi N of Topeka, KS, USA'',
                     google_formatted_address := ''Topeka, KS, USA'',
                     location_type := ''APPROXIMATE''\<rparr>, Geocoded, [''Topeka, KS, USA''])"
    by (simp add: geocode_row_def Let_def north_parts north_text geocode_address_google_def
          topeka_resolve_def shift_row_def merge_post_flags_def)
  have m: "main ''key'' topeka_resolve [north_row] =
          Saved (case geocode_row topeka_resolve (preflag north_row) of
                   (r', oc, sent) \<Rightarrow>
                     count oc (init_state\<lparr>table := [r'], calls := map (Pair 0) sent\<rparr>))"
    using north_parts(1) by (intro main_single) simp_all
  have p: "preflag north_row = north_row\<lparr>flag_status := ''OK''\<rparr>"
    by (simp add: preflag_def north_parts) (simp add: north_row_def blank_row_def)
  have o: "output_rows (main ''key'' topeka_resolve [north_row])
       = [north_row\<lparr>latitude := Some 39.0473, longitude := Some (- 95.6752),
                     geocoded_address := ''5mi N of Topeka, KS, USA'',
                     google_formatted_address := ''Topeka, KS, USA'',
                     location_type := ''APPROXIMATE'', flag_status := ''OK''\<rparr>]"
    unfolding m g by (simp add: p output_rows_def count_def init_state_def)
  show ?thesis
    unfolding o by (simp add: north_text) (simp add: north_row_def blank_row_def)
qed

subsection \<open>The outcome of a call\<close>

text \<open>The call gives no result exactly when the service does not answer with success.\<close>

lemma no_result_iff:
  "geocode_address_google resolve a = None
   \<longleftrightarrow> (\<forall>lat lon t f. resolve a \<noteq> Success lat lon t f)"
  by (cases "resolve a") (simp_all add: geocode_address_google_def)

text \<open>Without a result the row is written back as it was and counted as failed.\<close>

lemma geocode_row_failure:
  assumes "\<not> is_too_vague r" "construct_address r = Some address" "address \<noteq> []"
    and "geocode_address_google resolve (extract_base_location address) = None"
  shows "geocode_row resolve r = (r, Failed, [extract_base_location address])"
  using assms by (simp add: geocode_row_def Let_def)

text \<open>A success with both coordinates different from zero is written to the row.\<close>

lemma geocode_row_success:
  assumes "\<not> is_too_vague r" "construct_address r = Some address" "address \<noteq> []"
    and "resolve (extract_base_location address) = Success lat lon t f"
    and "lat \<noteq> 0" "lon \<noteq> 0"
  shows "latitude (fst (geocode_row resolve r)) = Some lat
       \<and> longitude (fst (geocode_row resolve r)) = Some lon
       \<and> location_type (fst (geocode_row resolve r)) = t
       \<and> google_formatted_address (fst (geocode_row resolve r)) = f
       \<and> fst (snd (geocode_row resolve r)) = Geocoded"
  using assms by (simp add: geocode_row_def Let_def geocode_address_google_def)

lemma meridian_parts:
  "should_geocode meridian_row"
  "is_too_vague meridian_row = False"
  "construct_address meridian_row = Some ''Greenwich, London, UK''"
  "flag_potential_issues meridian_row = (''OK'', [])"
  unfolding meridian_row_def blank_row_def by code_simp+

lemma meridian_text:
  "extract_base_location ''Greenwich, London, UK'' = ''Greenwich, London, UK''"
  by code_simp

text \<open>
  C1: when the call succeeds, the coordinates, location type and formatted address of
  the result are written to the record. The source tests \<open>if lat and lon\<close>, which is
  false for a coordinate that is 0.0: a successful result on the prime meridian is counted
  as a failure and nothing is written.
\<close>

theorem C1_zero_coordinate_counts_as_failure:
  "meridian_resolve ''Greenwich, London, UK'' = Success 51.4779 0 ''APPROXIMATE'' ''Greenwich, London, UK''
   \<and> main ''key'' meridian_resolve [meridian_row]
       = Saved \<lparr>table = [meridian_row\<lparr>flag_status := ''OK''\<rparr>], geocoded_count = 0,
                skipped_vague = 0, failed_count = 1,
                calls = [(0, ''Greenwich, London, UK'')]\<rparr>
   \<and> latitude (meridian_row\<lparr>flag_status := ''OK''\<rparr>) = None
   \<and> longitude (meridian_row\<lparr>flag_status := ''OK''\<rparr>) = None
   \<and> google_formatted_address (meridian_row\<lparr>flag_status := ''OK''\<rparr>) = []"
proof -
  have g: "geocode_row meridian_resolve (preflag meridian_row) =
             (preflag meridian_row, Failed, [''Greenwich, London, UK''])"
    by (simp add: geocode_row_def Let_def meridian_parts meridian_text
          geocode_address_google_def meridian_resolve_def)
  have m: "main ''key'' meridian_resolve [meridian_row] =
          Saved (case geocode_row meridian_resolve (preflag meridian_row) of
                   (r', oc, sent) \<Rightarrow>
                     count oc (init_state\<lparr>table := [r'], calls := map (Pair 0) sent\<rparr>))"
    using meridian_parts(1) by (intro main_single) simp_all
  have p: "preflag meridian_row = meridian_row\<lparr>flag_status := ''OK''\<rparr>"
    by (simp add: preflag_def meridian_parts) (simp add: meridian_row_def blank_row_def)
  show ?thesis
    unfolding m g by (simp add: p count_def init_state_def meridian_resolve_def)
       (simp add: meridian_row_def blank_row_def)
qed

subsection \<open>County and state only\<close>

lemma strip_nan: "strip ''nan'' = ''nan''"
  by code_simp

lemma absent_text: "\<not> has v \<Longrightarrow> strip (str_get v) = [] \<or> strip (str_get v) = ''nan''"
  by (cases v) (simp_all add: has_def str_get_def strip_nan, simp add: strip_def)

lemma no_park_in_absent_text:
  "any_found park_keywords (lower ([] @ '' '' @ [])) = False"
  "any_found park_keywords (lower ([] @ '' '' @ ''nan'')) = False"
  "any_found park_keywords (lower (''nan'' @ '' '' @ [])) = False"
  "any_found park_keywords (lower (''nan'' @ '' '' @ ''nan'')) = False"
  by code_simp+

lemma collect_flags_county_state:
  assumes "\<not> has (city r)" "\<not> has (prec_location r)" "has (county r)" "has (province_state r)"
  shows "collect_flags r = [''County/state only - very vague'']
       \<or> collect_flags r = [''County/state only - very vague'', ''Multiple counties listed'']"
proof -
  from absent_text [OF assms(1)] absent_text [OF assms(2)]
  have "any_found park_keywords
          (lower (strip (str_get (prec_location r)) @ '' '' @ strip (str_get (city r)))) = False"
    using no_park_in_absent_text by auto
  then show ?thesis
    using assms by (simp add: collect_flags_def Let_def)
qed

lemma county_state_verdicts:
  "list_ex (mentions critical_keywords) [''County/state only - very vague'']"
  "list_ex (mentions critical_keywords)
     [''County/state only - very vague'', ''Multiple counties listed'']"
  "contains ''vague'' (lower ''County/state only - very vague'')"
  "contains ''vague'' (lower ''County/state only - very vague; Multiple counties listed'')"
  "\<not> contains ''missing state'' (lower ''County/state only - very vague'')"
  "\<not> contains ''missing state'' (lower ''County/state only - very vague; Multiple counties listed'')"
  by code_simp+

text \<open>
  C2, as the source has it: a record with neither city nor precise location, but with
  county and state, is flagged WARNING, and its reason trail has the "vague" marker and
  no "missing state" marker: the flag "Missing state" fires only when the state is
  absent, and here it is present.
\<close>

theorem C2_county_state_only:
  assumes "\<not> has (city r)" "\<not> has (prec_location r)" "has (county r)" "has (province_state r)"
  shows "fst (flag_potential_issues r) = ''WARNING''
       \<and> contains ''vague'' (lower (snd (flag_potential_issues r)))
       \<and> \<not> contains ''missing state'' (lower (snd (flag_potential_issues r)))"
proof -
  from collect_flags_county_state [OF assms]
  consider "collect_flags r = [''County/state only - very vague'']"
    | "collect_flags r = [''County/state only - very vague'', ''Multiple counties listed'']"
    by blast
  then show ?thesis
  proof cases
    case 1
    then have "flag_potential_issues r = (''WARNING'', ''County/state only - very vague'')"
      using county_state_verdicts(1) by (simp add: flag_potential_issues_def)
    then show ?thesis using county_state_verdicts(3,5) by simp
  next
    case 2
    then have "flag_potential_issues r
                 = (''WARNING'', ''County/state only - very vague; Multiple counties listed'')"
      using county_state_verdicts(2) by (simp add: flag_potential_issues_def)
    then show ?thesis using county_state_verdicts(4,6) by simp
  qed
qed

lemma county_row_fields:
  "\<not> has (city county_row)" "\<not> has (prec_location county_row)"
  "has (county county_row)" "has (province_state county_row)"
  unfolding county_row_def blank_row_def by code_simp+

theorem C2_county_state_only_witness:
  "\<not> has (city county_row) \<and> \<not> has (prec_location county_row)
   \<and> has (county county_row) \<and> has (province_state county_row)
   \<and> fst (flag_potential_issues county_row) = ''WARNING''
   \<and> contains ''vague'' (lower (snd (flag_potential_issues county_row)))
   \<and> \<not> contains ''missing state'' (lower (snd (flag_potential_issues county_row)))"
  using C2_county_state_only [of county_row] county_row_fields by simp

text \<open>C2 as stated asks for a "missing state" marker in the reason trail.\<close>

theorem C2_counterexample:
  "\<not> has (city county_row) \<and> \<not> has (prec_location county_row)
   \<and> has (county county_row) \<and> has (province_state county_row)
   \<and> flag_potential_issues county_row = (''WARNING'', ''County/state only - very vague'')
   \<and> \<not> contains ''missing state'' (lower (snd (flag_potential_issues county_row)))"
  unfolding county_row_def blank_row_def by code_simp

subsection \<open>The loop\<close>

lemma count_fields [simp]:
  "table (count oc st) = table st" "calls (count oc st) = calls st"
  by (cases oc; simp add: count_def)+

text \<open>What the loop writes back for one row.\<close>

lemma geocode_rows_table:
  "table (geocode_rows resolve idx rs st)
   = table st @ map (\<lambda>r. if should_geocode r then fst (geocode_row resolve r) else r) rs"
  by (induction rs arbitrary: idx st) (simp_all split: prod.split)

text \<open>Every row is written back, whatever the outcome of its call.\<close>

lemma geocode_rows_length:
  "length (table (geocode_rows resolve idx rs st)) = length (table st) + length rs"
  by (simp add: geocode_rows_table)

lemma geocode_rows_calls:
  "fst ` set (calls (geocode_rows resolve idx rs st))
   \<subseteq> fst ` set (calls st) \<union> {idx + j | j. j < length rs \<and> should_geocode (rs ! j)}"
proof (induction rs arbitrary: idx st)
  case Nil
  then show ?case by simp
next
  case (Cons r rs)
  let ?st = "if should_geocode r
             then (case geocode_row resolve r of
                     (r', oc, sent) \<Rightarrow>
                       count oc (st\<lparr>table := table st @ [r'],
                                    calls := calls st @ map (Pair idx) sent\<rparr>))
             else st\<lparr>table := table st @ [r]\<rparr>"
  have step: "fst ` set (calls ?st)
              \<subseteq> fst ` set (calls st) \<union> {idx + j | j. j < length (r # rs) \<and> should_geocode ((r # rs) ! j)}"
  proof (cases "should_geocode r")
    case True
    have "idx + 0 \<in> {idx + j | j. j < length (r # rs) \<and> should_geocode ((r # rs) ! j)}"
      using True by (intro CollectI exI [of _ 0]) simp
    then show ?thesis using True by (auto split: prod.split)
  next
    case False
    then show ?thesis by simp
  qed
  have shift: "{Suc idx + j | j. j < length rs \<and> should_geocode (rs ! j)}
               \<subseteq> {idx + j | j. j < length (r # rs) \<and> should_geocode ((r # rs) ! j)}"
  proof
    fix k
    assume "k \<in> {Suc idx + j | j. j < length rs \<and> should_geocode (rs ! j)}"
    then obtain j where j: "k = Suc idx + j" "j < length rs" "should_geocode (rs ! j)" by blast
    then have "k = idx + Suc j" "Suc j < length (r # rs)" "should_geocode ((r # rs) ! Suc j)"
      by simp_all
    then show "k \<in> {idx + j | j. j < length (r # rs) \<and> should_geocode ((r # rs) ! j)}"
      by blast
  qed
  have "fst ` set (calls (geocode_rows resolve idx (r # rs) st))
        = fst ` set (calls (geocode_rows resolve (Suc idx) rs ?st))"
    by simp
  also have "\<dots> \<subseteq> fst ` set (calls ?st)
                  \<union> {Suc idx + j | j. j < length rs \<and> should_geocode (rs ! j)}"
    by (rule Cons.IH)
  finally show ?case using step shift by blast
qed

text \<open>
  C9, as the source has it: in a run that saves its table, a record that has both
  coordinates causes no call to the service and keeps every field except the two flag
  columns, which the pre-processing pass writes again for every row; flags that the
  post-geocoding stage of an earlier run added are gone after the second run.
\<close>

theorem C9_rerun_recomputes_flags:
  assumes "i < length rows"
    and "latitude (rows ! i) \<noteq> None" "longitude (rows ! i) \<noteq> None"
    and "main api_key resolve rows = Saved st"
  shows "i \<notin> fst ` set (calls st)
       \<and> length (table st) = length rows
       \<and> table st ! i = (rows ! i)\<lparr>flag_status := fst (flag_potential_issues (rows ! i)),
                                    flag_reason := snd (flag_potential_issues (rows ! i))\<rparr>"
proof -
  let ?df = "map preflag rows"
  have st: "st = geocode_rows resolve 0 ?df init_state"
    using assms(4) by (simp add: main_def Let_def split: if_splits)
  have no: "\<not> should_geocode (rows ! i)"
    using assms(2,3) by (simp add: should_geocode_def)
  have t: "table st = map (\<lambda>r. if should_geocode r then fst (geocode_row resolve r) else r) ?df"
    by (simp add: st geocode_rows_table init_state_def)
  have "table st ! i = preflag (rows ! i)"
    using assms(1) no by (simp add: t)
  then have row: "table st ! i = (rows ! i)\<lparr>flag_status := fst (flag_potential_issues (rows ! i)),
                                    flag_reason := snd (flag_potential_issues (rows ! i))\<rparr>"
    by (simp add: preflag_def)
  have "fst ` set (calls st) \<subseteq> {0 + j | j. j < length ?df \<and> should_geocode (?df ! j)}"
    using geocode_rows_calls [of resolve 0 ?df init_state] by (simp add: st init_state_def)
  moreover have "i \<notin> {0 + j | j. j < length ?df \<and> should_geocode (?df ! j)}"
    using assms(1) no by auto
  ultimately have "i \<notin> fst ` set (calls st)" by blast
  then show ?thesis using row by (simp add: t)
qed

text \<open>When every row has both coordinates, the run ends before it saves anything.\<close>

lemma all_geocoded_early_return:
  "\<forall>r \<in> set rows. latitude r \<noteq> None \<and> longitude r \<noteq> None
   \<Longrightarrow> main api_key resolve rows = AllHaveCoordinates"
  by (simp add: main_def Let_def should_geocode_def filter_empty_conv)

subsection \<open>Two runs\<close>

lemma springfield_parts:
  "should_geocode springfield_row"
  "is_too_vague springfield_row = False"
  "construct_address springfield_row = Some ''Springfield, Kansas, USA''"
  "strip (str_get (prec_location springfield_row)) = ''nan''"
  "post_geocode_flags springfield_row ''APPROXIMATE'' ''Springfield, IL, USA''
     = [''State mismatch (expected Kansas)'']"
  "flag_potential_issues springfield_row = (''OK'', [])"
  unfolding springfield_row_def blank_row_def by code_simp+

lemma flag_potential_issues_cong:
  assumes "prec_location r = prec_location r'" "city r = city r'" "county r = county r'"
    and "province_state r = province_state r'"
  shows "flag_potential_issues r = flag_potential_issues r'"
proof -
  have "collect_flags r = collect_flags r'"
    unfolding collect_flags_def assms by (rule refl)
  then show ?thesis by (simp add: flag_potential_issues_def)
qed

lemma flagged_flags: "flag_potential_issues flagged_row = (''OK'', [])"
  using flag_potential_issues_cong [of flagged_row springfield_row] springfield_parts(6)
  by (simp add: flagged_row_def)

lemma lost_parts:
  "should_geocode lost_row"
  "is_too_vague lost_row = False"
  "construct_address lost_row = Some ''Atlantis, Kansas, USA''"
  "flag_potential_issues lost_row = (''OK'', [])"
  unfolding lost_row_def blank_row_def by code_simp+

lemma two_runs_text:
  "extract_base_location ''Springfield, Kansas, USA'' = ''Springfield, Kansas, USA''"
  "extract_base_location ''Atlantis, Kansas, USA'' = ''Atlantis, Kansas, USA''"
  "parse_directional_offset ''nan'' = None"
  "serious ''State mismatch (expected Kansas)''"
  by code_simp+

lemma preflag_springfield: "preflag springfield_row = springfield_row\<lparr>flag_status := ''OK''\<rparr>"
  by (simp add: preflag_def springfield_parts) (simp add: springfield_row_def blank_row_def)

lemma preflag_lost: "preflag lost_row = lost_row"
  by (simp add: preflag_def lost_parts) (simp add: lost_row_def blank_row_def)

lemma preflag_flagged: "preflag flagged_row = flagged_row\<lparr>flag_status := ''OK'', flag_reason := []\<rparr>"
  by (simp add: preflag_def flagged_flags)

lemma geocode_springfield:
  "geocode_row springfield_resolve (preflag springfield_row)
     = (flagged_row, Geocoded, [''Springfield, Kansas, USA''])"
proof -
  have "geocode_row springfield_resolve (preflag springfield_row)
     = (merge_post_flags [''State mismatch (expected Kansas)'']
         (shift_row ''nan'' 39.7817 (- 89.6501)
           ((preflag springfield_row)\<lparr>latitude := Some 39.7817, longitude := Some (- 89.6501),
               geocoded_address := ''Springfield, Kansas, USA'',
               google_formatted_address := ''Springfield, IL, USA'',
               location_type := ''APPROXIMATE''\<rparr>)), Geocoded, [''Springfield, Kansas, USA''])"
    by (simp add: geocode_row_def Let_def springfield_parts two_runs_text
          geocode_address_google_def springfield_resolve_def)
  also have "\<dots> = (flagged_row, Geocoded, [''Springfield, Kansas, USA''])"
    unfolding preflag_springfield
    by (simp add: shift_row_def two_runs_text merge_post_flags_def Let_def flagged_row_def
          springfield_row_def blank_row_def)
  finally show ?thesis .
qed

lemma geocode_lost:
  "geocode_row springfield_resolve lost_row = (lost_row, Failed, [''Atlantis, Kansas, USA''])"
  by (simp add: geocode_row_def Let_def lost_parts two_runs_text
        geocode_address_google_def springfield_resolve_def)

lemma first_run:
  "main ''key'' springfield_resolve [springfield_row, lost_row]
     = Saved \<lparr>table = [flagged_row, lost_row], geocoded_count = 1, skipped_vague = 0,
              failed_count = 1,
              calls = [(0, ''Springfield, Kansas, USA''), (1, ''Atlantis, Kansas, USA'')]\<rparr>"
  by (simp add: main_def springfield_parts lost_parts preflag_lost geocode_springfield
        geocode_lost init_state_def count_def)

lemma flagged_not_candidate:
  "should_geocode (flagged_row\<lparr>flag_status := a, flag_reason := b\<rparr>) = False"
  by (simp add: should_geocode_def flagged_row_def)

lemma second_run:
  "main ''key'' springfield_resolve [flagged_row, lost_row]
     = Saved \<lparr>table = [flagged_row\<lparr>flag_status := ''OK'', flag_reason := []\<rparr>, lost_row],
              geocoded_count = 0, skipped_vague = 0, failed_count = 1,
              calls = [(1, ''Atlantis, Kansas, USA'')]\<rparr>"
  by (simp add: main_def lost_parts preflag_lost preflag_flagged flagged_not_candidate
        geocode_lost init_state_def count_def)

lemma flagged_fields:
  "latitude flagged_row = Some 39.7817" "longitude flagged_row = Some (- 89.6501)"
  "flag_status flagged_row = ''WARNING''"
  "flag_reason flagged_row = ''State mismatch (expected Kansas)''"
  by (simp_all add: flagged_row_def)

text \<open>
  C9 as stated says that the flag columns are unchanged too. The first run geocodes
  Springfield and flags the state mismatch; the second run, on the table the first one
  left, sets the status of that row back to OK and empties its reason trail.
\<close>

theorem C9_counterexample:
  "output_rows (main ''key'' springfield_resolve [springfield_row, lost_row])
     = [flagged_row, lost_row]
   \<and> latitude flagged_row \<noteq> None \<and> longitude flagged_row \<noteq> None
   \<and> flag_status flagged_row = ''WARNING''
   \<and> flag_reason flagged_row = ''State mismatch (expected Kansas)''
   \<and> flag_status (output_rows (main ''key'' springfield_resolve [flagged_row, lost_row]) ! 0)
       = ''OK''
   \<and> flag_reason (output_rows (main ''key'' springfield_resolve [flagged_row, lost_row]) ! 0)
       = []"
  by (simp add: first_run second_run output_rows_def flagged_fields)

theorem C9_rerun_recomputes_flags_witness:
  "(0::nat) < length [flagged_row, lost_row]
   \<and> latitude ([flagged_row, lost_row] ! 0) \<noteq> None
   \<and> longitude ([flagged_row, lost_row] ! 0) \<noteq> None
   \<and> main ''key'' springfield_resolve [flagged_row, lost_row]
       = Saved \<lparr>table = [flagged_row\<lparr>flag_status := ''OK'', flag_reason := []\<rparr>, lost_row],
              geocoded_count = 0, skipped_vague = 0, failed_count = 1,
              calls = [(1, ''Atlantis, Kansas, USA'')]\<rparr>
   \<and> 0 \<notin> fst ` set (calls \<lparr>table = [flagged_row\<lparr>flag_status := ''OK'', flag_reason := []\<rparr>, lost_row],
              geocoded_count = 0, skipped_vague = 0, failed_count = 1,
              calls = [(1, ''Atlantis, Kansas, USA'')]\<rparr>)
   \<and> table \<lparr>table = [flagged_row\<lparr>flag_status := ''OK'', flag_reason := []\<rparr>, lost_row],
              geocoded_count = 0, skipped_vague = 0, failed_count = 1,
              calls = [(1, ''Atlantis, Kansas, USA'')]\<rparr> ! 0
       = ([flagged_row, lost_row] ! 0)
            \<lparr>flag_status := fst (flag_potential_issues ([flagged_row, lost_row] ! 0)),
             flag_reason := snd (flag_potential_issues ([flagged_row, lost_row] ! 0))\<rparr>"
proof -
  have h1: "(0::nat) < length [flagged_row, lost_row]" by simp
  have h2: "latitude ([flagged_row, lost_row] ! 0) \<noteq> None" by (simp add: flagged_fields)
  have h3: "longitude ([flagged_row, lost_row] ! 0) \<noteq> None" by (simp add: flagged_fields)
  note t = C9_rerun_recomputes_flags [OF h1 h2 h3 second_run]
  from h1 h2 h3 second_run t show ?thesis by blast
qed

end
